theory Spec2Isabelle
  imports Main "HOL-Library.Word"
begin

unbundle bit_operations_syntax

section \<open>Common data\<close>

type_synonym byte = "8 word"

text \<open>
  The error values of the two packages. \<open>versionError\<close>, \<open>HeaderNameLength\<close> and
  \<open>HeaderValuesLength\<close> are the three errors created in compression.go
  (\<open>errors.New("spdy: Version not supported.")\<close>,
  \<open>errors.New("Error: Incorrect header name length.")\<close>,
  \<open>errors.New("Error: Incorrect header values length.")\<close>). \<open>StreamError c\<close> is an error
  returned by compress/zlib, with an opaque code. The remaining ones are the errors of
  the frame codec, named as in the specification.
\<close>

datatype error =
    versionError
  | HeaderNameLength
  | HeaderValuesLength
  | StreamError nat
  | ShortRead
  | ProtocolError
  | InvalidFlags
  | IncorrectDataLength int int

text \<open>A Go call either returns or panics.\<close>

datatype panic = PanicError error | NilDereference

datatype 'a outcome = Returns 'a | Panics panic

section \<open>spdy2/frames/noop.go\<close>

text \<open>\<open>type NoopFrame struct{}\<close>: a frame without fields.\<close>

datatype NoopFrame = NoopFrame

text \<open>
  Modelled from the spec: \<open>common.ReadExactly\<close> is not among the sources. The
  specification: "either returns exactly n bytes or an error -- partial reads are never
  tolerated"; "fails with ShortRead if the source yields fewer than n bytes". The byte
  source is the list of the bytes it still holds; a failed read has drained it.
\<close>

definition ReadExactly :: "byte list \<Rightarrow> nat \<Rightarrow> (error + byte list) \<times> byte list" where
  "ReadExactly reader n =
     (if length reader < n then (Inl ShortRead, [])
      else (Inr (take n reader), drop n reader))"

text \<open>
  Modelled from the spec: \<open>common.BytesToUint24\<close> is not among the sources. The
  specification: big-endian decoder over a fixed-width (3 byte) slice.
\<close>

definition BytesToUint24 :: "byte list \<Rightarrow> 32 word" where
  "BytesToUint24 b =
     push_bit 16 (ucast (b ! 0)) + push_bit 8 (ucast (b ! 1)) + ucast (b ! 2)"

text \<open>
  Modelled from the spec: the frame type constant \<open>NOOP\<close> is not among the sources.
  The specification: \<open>NOOP(5, v2 only)\<close>.
\<close>

definition NOOP :: "16 word" where
  "NOOP = 5"

text \<open>
  Modelled from the spec: \<open>controlFrameCommonProcessing\<close> is not among the sources.
  The specification: "verify the C-bit matches (control vs. data), version equals the
  framer's bound version, and the declared type matches the expected type. Mismatch:
  ProtocolError", and "each frame type defines an allowed-flags bitmask. Undefined bits
  MUST be rejected with InvalidFlags". The argument is the first five bytes of the
  common header; the bound version of this package is 2.
\<close>

definition controlFrameCommonProcessing :: "byte list \<Rightarrow> 16 word \<Rightarrow> byte \<Rightarrow> error option" where
  "controlFrameCommonProcessing data frameType flags =
     (if \<not> bit (data ! 0) 7 then Some ProtocolError
      else if push_bit 8 (ucast (data ! 0 AND 0x7f)) + ucast (data ! 1) \<noteq> (2 :: 16 word)
        then Some ProtocolError
      else if push_bit 8 (ucast (data ! 2)) + ucast (data ! 3) \<noteq> frameType
        then Some ProtocolError
      else if data ! 4 AND NOT flags \<noteq> 0 then Some InvalidFlags
      else None)"

text \<open>
  \<open>func (frame *NoopFrame) ReadFrom(reader io.Reader) (int64, error)\<close>. The result is
  the returned pair and the bytes left in the reader.
\<close>

definition ReadFrom :: "NoopFrame \<Rightarrow> byte list \<Rightarrow> (int \<times> error option) \<times> byte list" where
  "ReadFrom frame reader =
     (case ReadExactly reader 8 of
        (Inl err, reader') \<Rightarrow> ((0, Some err), reader')
      | (Inr data, reader') \<Rightarrow>
          (case controlFrameCommonProcessing (take 5 data) NOOP 0 of
             Some err \<Rightarrow> ((8, Some err), reader')
           | None \<Rightarrow>
               (let length = uint (BytesToUint24 (drop 5 data))
                in if length \<noteq> 0 then ((8, Some (IncorrectDataLength length 0)), reader')
                   else ((8, None), reader'))))"

text \<open>
  \<open>func (frame *NoopFrame) WriteTo(writer io.Writer) (int64, error)\<close>, whose body is
  \<open>return 0, nil\<close>. The byte sink is the list of the bytes written to it so far; the
  result is the returned pair and the sink afterwards.
\<close>

definition WriteTo :: "NoopFrame \<Rightarrow> byte list \<Rightarrow> (int \<times> error option) \<times> byte list" where
  "WriteTo frame writer = ((0, None), writer)"

section \<open>compression.go\<close>

subsection \<open>What compression.go uses and does not define\<close>

text \<open>
  Modelled from the spec: the constant \<open>MAX_FRAME_SIZE\<close> is not among the sources. The
  specification: "MAX_FRAME_SIZE = 2^24 - 1 (frame-length field is 24-bit)".
\<close>

definition MAX_FRAME_SIZE :: int where
  "MAX_FRAME_SIZE = 2 ^ 24 - 1"

text \<open>
  Modelled from the spec: \<open>bytesToUint16\<close> and \<open>bytesToUint32\<close> are not among the
  sources. The specification: big-endian decoders over fixed-width byte slices.
\<close>

definition bytesToUint16 :: "byte list \<Rightarrow> 16 word" where
  "bytesToUint16 b = push_bit 8 (ucast (b ! 0)) + ucast (b ! 1)"

definition bytesToUint32 :: "byte list \<Rightarrow> 32 word" where
  "bytesToUint32 b =
     push_bit 24 (ucast (b ! 0)) + push_bit 16 (ucast (b ! 1)) + push_bit 8 (ucast (b ! 2))
     + ucast (b ! 3)"

text \<open>
  \<open>type Header map[string][]string\<close>; a Go string is a sequence of bytes.

  Modelled from the spec: the method \<open>Header.Add\<close> is not among the sources. The
  specification: "a mapping from name to an ordered sequence of string values (order
  of arrival preserved; multiple values for one name are legal)".
\<close>

type_synonym Header = "byte list \<rightharpoonup> byte list list"

definition Add :: "Header \<Rightarrow> byte list \<Rightarrow> byte list \<Rightarrow> Header" where
  "Add h key val = h(key \<mapsto> (case h key of None \<Rightarrow> [val] | Some vs \<Rightarrow> vs @ [val]))"

text \<open>
  \<open>bytes.Split(s, sep)\<close> of the Go library for a separator of one byte: the pieces of
  \<open>s\<close> between the separators; one more piece than there are separators, so a single
  empty piece for the empty \<open>s\<close>.
\<close>

fun bytes_Split :: "byte list \<Rightarrow> byte \<Rightarrow> byte list list" where
  "bytes_Split [] sep = [[]]"
| "bytes_Split (b # bs) sep =
     (if b = sep then [] # bytes_Split bs sep
      else (case bytes_Split bs sep of
              [] \<Rightarrow> [[b]]
            | piece # pieces \<Rightarrow> (b # piece) # pieces))"

text \<open>
  The two preset dictionaries are byte strings that are not among the sources; the
  model only says which of the two is handed to compress/zlib.
\<close>

datatype dictionary = HeaderDictionaryV2 | HeaderDictionaryV3

text \<open>
  compress/zlib is not part of the repository: it is a parameter of the model.

  The reader side. \<open>NewReaderDict src dict\<close> is given the unread bytes of the source
  buffer and returns an error code or a reader, and the bytes it left unread (it
  reads the stream header at once). \<open>Read r src n\<close> is a call of \<open>Read\<close> with a
  buffer of \<open>n\<close> bytes: it returns the bytes delivered (an \<open>io.Reader\<close> may deliver
  fewer than \<open>n\<close>), an error code or none, the reader afterwards and the bytes it left
  unread in the source buffer.
\<close>

record 'r zlib_reader =
  NewReaderDict :: "byte list \<Rightarrow> dictionary \<Rightarrow> (nat + 'r) \<times> byte list"
  Read :: "'r \<Rightarrow> byte list \<Rightarrow> nat \<Rightarrow> (byte list \<times> nat option) \<times> 'r \<times> byte list"

text \<open>
  The writer side. \<open>NewWriterLevelDict level dict\<close> returns an error code or a
  writer. \<open>Write w p\<close> returns an error code or none, the writer afterwards and the
  bytes it appended to the destination buffer; \<open>Flush w\<close> returns the writer afterwards
  and the bytes it appended.
\<close>

record 'w zlib_writer =
  NewWriterLevelDict :: "int \<Rightarrow> dictionary \<Rightarrow> nat + 'w"
  Write :: "'w \<Rightarrow> byte list \<Rightarrow> nat option \<times> 'w \<times> byte list"
  Flush :: "'w \<Rightarrow> 'w \<times> byte list"

definition BestCompression :: int where
  "BestCompression = 9"

subsection \<open>Decompressor\<close>

text \<open>
  \<open>in\<close> is nil or a buffer, given by its unread bytes; \<open>out\<close> is nil or a reader. The
  mutex has no part in a sequential model.
\<close>

record 'r Decompressor =
  d_in :: "byte list option"
  d_out :: "'r option"
  d_version :: "16 word"

definition NewDecompressor :: "16 word \<Rightarrow> 'r Decompressor" where
  "NewDecompressor version = \<lparr>d_in = None, d_out = None, d_version = version\<rparr>"

text \<open>
  What a call did, in order, beside its result: each \<open>Read\<close> on the stream (the size of
  the buffer and the bytes delivered into it), each length decoded from a length
  field, and each \<open>make([]byte, n)\<close> of a name or value buffer. The trace is not
  program state; nothing in the model reads it.
\<close>

datatype event =
    ReadCall nat "byte list"
  | DeclaredName int
  | DeclaredValue int
  | Make int

text \<open>
  The variables of a running call: the reader behind \<open>d.out\<close>, the unread bytes of
  \<open>d.in\<close>, and the locals \<open>chunk\<close>, \<open>headers\<close> and \<open>bounds\<close>. The local \<open>length\<close> is
  only printed by \<open>debug.Printf\<close> and is left out.
\<close>

record 'r locals =
  l_out :: 'r
  l_in :: "byte list"
  chunk :: "byte list"
  headers :: Header
  bounds :: int
  trace :: "event list"

text \<open>
  The bytes a \<open>Read\<close> into the buffer \<open>p\<close> delivers: no more than \<open>p\<close> takes.
\<close>

definition received :: "'r zlib_reader \<Rightarrow> byte list \<Rightarrow> 'r locals \<Rightarrow> byte list" where
  "received Z p s = take (length p) (fst (fst (Read Z (l_out s) (l_in s) (length p))))"

text \<open>
  \<open>_, err = d.out.Read(p)\<close>: the bytes delivered overwrite the front of \<open>p\<close>, the rest
  of \<open>p\<close> keeps its content, and the number of bytes read is dropped.
\<close>

definition do_Read :: "'r zlib_reader \<Rightarrow> byte list \<Rightarrow> 'r locals \<Rightarrow> byte list \<times> nat option \<times> 'r locals" where
  "do_Read Z p s =
     (case Read Z (l_out s) (l_in s) (length p) of
        ((bs, err), r, src) \<Rightarrow>
          (received Z p s @ drop (length (received Z p s)) p, err,
           s\<lparr>l_out := r, l_in := src,
             trace := trace s @ [ReadCall (length p) (received Z p s)]\<rparr>))"

type_synonym result = "(Header option \<times> error option) outcome"

text \<open>
  The body of the loop over the name/value pairs (lines 91 to 134): \<open>Inl\<close> when the
  body leaves the function, \<open>Inr\<close> when it reaches its end.
\<close>

definition read_pair :: "'r zlib_reader \<Rightarrow> (byte list \<Rightarrow> int) \<Rightarrow> 'r locals \<Rightarrow> (result \<times> 'r locals) + 'r locals" where
  "read_pair Z dechunk s0 =
     (case do_Read Z (chunk s0) s0 of (c1, err1, s1') \<Rightarrow>
      let s1 = s1'\<lparr>chunk := c1\<rparr> in
      case err1 of
        Some e \<Rightarrow> Inl (Returns (None, Some (StreamError e)), s1)
      | None \<Rightarrow>
      let nameLength = dechunk (chunk s1);
          s2 = s1\<lparr>trace := trace s1 @ [DeclaredName nameLength]\<rparr> in
      if nameLength > bounds s2 then Inl (Returns (None, Some HeaderNameLength), s2)
      else
      let s3 = s2\<lparr>bounds := bounds s2 - nameLength, trace := trace s2 @ [Make nameLength]\<rparr> in
      case do_Read Z (replicate (nat nameLength) 0) s3 of (name, err2, s4) \<Rightarrow>
      case err2 of
        Some e \<Rightarrow> Inl (Panics (PanicError (StreamError e)), s4)
      | None \<Rightarrow>
      case do_Read Z (chunk s4) s4 of (c2, err3, s5') \<Rightarrow>
      let s5 = s5'\<lparr>chunk := c2\<rparr> in
      case err3 of
        Some e \<Rightarrow> Inl (Panics (PanicError (StreamError e)), s5)
      | None \<Rightarrow>
      let valueLength = dechunk (chunk s5);
          s6 = s5\<lparr>trace := trace s5 @ [DeclaredValue valueLength]\<rparr> in
      if valueLength > bounds s6 then Inl (Returns (None, Some HeaderValuesLength), s6)
      else
      let s7 = s6\<lparr>bounds := bounds s6 - valueLength, trace := trace s6 @ [Make valueLength]\<rparr> in
      case do_Read Z (replicate (nat valueLength) 0) s7 of (values, err4, s8) \<Rightarrow>
      case err4 of
        Some e \<Rightarrow> Inl (Returns (None, Some (StreamError e)), s8)
      | None \<Rightarrow>
      Inr (s8\<lparr>headers := foldl (\<lambda>h val. Add h name val) (headers s8) (bytes_Split values 0)\<rparr>))"

text \<open>
  \<open>for i := 0; i < numNameValuePairs; i++\<close>, by the number of iterations still to run,
  and the \<open>return headers, nil\<close> after the loop.
\<close>

fun read_pairs :: "'r zlib_reader \<Rightarrow> (byte list \<Rightarrow> int) \<Rightarrow> nat \<Rightarrow> 'r locals \<Rightarrow> result \<times> 'r locals" where
  "read_pairs Z dechunk 0 s = (Returns (Some (headers s), None), s)"
| "read_pairs Z dechunk (Suc k) s =
     (case read_pair Z dechunk s of
        Inl res \<Rightarrow> res
      | Inr s' \<Rightarrow> read_pairs Z dechunk k s')"

text \<open>
  Lines 80 to 139, for a chunk of \<open>w\<close> bytes: the pair count, then the loop. Go's
  \<open>int\<close> is taken to have 64 bits, so that the conversion of a \<open>uint32\<close> keeps its
  value.
\<close>

definition read_block :: "'r zlib_reader \<Rightarrow> nat \<Rightarrow> (byte list \<Rightarrow> int) \<Rightarrow> 'r \<Rightarrow> byte list \<Rightarrow> result \<times> 'r locals" where
  "read_block Z w dechunk r src =
     (let s0 = \<lparr>l_out = r, l_in = src, chunk = replicate w 0, headers = Map.empty,
                bounds = MAX_FRAME_SIZE - 12, trace = []\<rparr> in
      case do_Read Z (chunk s0) s0 of (c, err, s1') \<Rightarrow>
      let s1 = s1'\<lparr>chunk := c\<rparr> in
      case err of
        Some e \<Rightarrow> (Panics (PanicError (StreamError e)), s1)
      | None \<Rightarrow>
      let numNameValuePairs = dechunk (chunk s1) in
      read_pairs Z dechunk (nat numNameValuePairs) s1)"

text \<open>
  Lines 37 to 59: the source buffer is created on the first call, and reset and
  rewritten on the later ones; the reader is created when there is none. The result
  is an error, or the reader, and in both cases the unread bytes of \<open>d.in\<close>.
\<close>

definition open_stream :: "'r zlib_reader \<Rightarrow> 'r Decompressor \<Rightarrow> byte list \<Rightarrow> (error + 'r) \<times> byte list" where
  "open_stream Z d data =
     (let buf = (case d_in d of None \<Rightarrow> data | Some old \<Rightarrow> [] @ data) in
      case d_out d of
        Some r \<Rightarrow> (Inr r, buf)
      | None \<Rightarrow>
          if d_version d = 2 then
            (case NewReaderDict Z buf HeaderDictionaryV2 of
               (Inl e, src) \<Rightarrow> (Inl (StreamError e), src)
             | (Inr r, src) \<Rightarrow> (Inr r, src))
          else if d_version d = 3 then
            (case NewReaderDict Z buf HeaderDictionaryV3 of
               (Inl e, src) \<Rightarrow> (Inl (StreamError e), src)
             | (Inr r, src) \<Rightarrow> (Inr r, src))
          else (Inl versionError, buf))"

text \<open>
  \<open>func (d *Decompressor) Decompress(data []byte) (headers Header, err error)\<close>. The
  result is what the call returned or that it panicked, the decompressor afterwards,
  and the trace of the call.
\<close>

definition Decompress :: "'r zlib_reader \<Rightarrow> 'r Decompressor \<Rightarrow> byte list \<Rightarrow> result \<times> 'r Decompressor \<times> event list" where
  "Decompress Z d data =
     (case open_stream Z d data of
        (Inl err, src) \<Rightarrow> (Returns (None, Some err), d\<lparr>d_in := Some src\<rparr>, [])
      | (Inr r, src) \<Rightarrow>
          if d_version d = 2 then
            (case read_block Z 2 (\<lambda>b. uint (bytesToUint16 b)) r src of
               (res, s) \<Rightarrow> (res, d\<lparr>d_in := Some (l_in s), d_out := Some (l_out s)\<rparr>, trace s))
          else if d_version d = 3 then
            (case read_block Z 4 (\<lambda>b. uint (bytesToUint32 b)) r src of
               (res, s) \<Rightarrow> (res, d\<lparr>d_in := Some (l_in s), d_out := Some (l_out s)\<rparr>, trace s))
          else (Returns (None, Some versionError), d\<lparr>d_in := Some src, d_out := Some r\<rparr>, []))"

subsection \<open>Compressor\<close>

record 'w Compressor =
  c_buf :: "byte list option"
  c_w :: "'w option"
  c_version :: "16 word"

definition NewCompressor :: "16 word \<Rightarrow> 'w Compressor" where
  "NewCompressor version = \<lparr>c_buf = None, c_w = None, c_version = version\<rparr>"

text \<open>
  Lines 167 to 185: an error, or none, and the compressor with its buffer created or
  reset. \<open>c.buf\<close> is assigned before the version is looked at.
\<close>

definition open_writer :: "'w zlib_writer \<Rightarrow> 'w Compressor \<Rightarrow> error option \<times> 'w Compressor" where
  "open_writer Z c =
     (case c_buf c of
        None \<Rightarrow>
          (let c1 = c\<lparr>c_buf := Some []\<rparr> in
           if c_version c1 = 2 then
             (case NewWriterLevelDict Z BestCompression HeaderDictionaryV2 of
                Inl e \<Rightarrow> (Some (StreamError e), c1\<lparr>c_w := None\<rparr>)
              | Inr w \<Rightarrow> (None, c1\<lparr>c_w := Some w\<rparr>))
           else if c_version c1 = 3 then
             (case NewWriterLevelDict Z BestCompression HeaderDictionaryV3 of
                Inl e \<Rightarrow> (Some (StreamError e), c1\<lparr>c_w := None\<rparr>)
              | Inr w \<Rightarrow> (None, c1\<lparr>c_w := Some w\<rparr>))
           else (Some versionError, c1))
      | Some old \<Rightarrow> (None, c\<lparr>c_buf := Some []\<rparr>))"

text \<open>
  \<open>func (c *Compressor) Compress(data []byte) ([]byte, error)\<close>. A method call on the
  nil \<open>*zlib.Writer\<close> reads a field of it and panics. The error of \<open>Flush\<close> is dropped
  by the source.
\<close>

definition Compress :: "'w zlib_writer \<Rightarrow> 'w Compressor \<Rightarrow> byte list \<Rightarrow> (byte list option \<times> error option) outcome \<times> 'w Compressor" where
  "Compress Z c data =
     (case open_writer Z c of
        (Some err, c1) \<Rightarrow> (Returns (None, Some err), c1)
      | (None, c1) \<Rightarrow>
          (case c_w c1 of
             None \<Rightarrow> (Panics NilDereference, c1)
           | Some w \<Rightarrow>
               (case Write Z w data of (err, w1, written) \<Rightarrow>
                let buf = (case c_buf c1 of None \<Rightarrow> [] | Some b \<Rightarrow> b);
                    c2 = c1\<lparr>c_w := Some w1, c_buf := Some (buf @ written)\<rparr> in
                case err of
                  Some e \<Rightarrow> (Returns (None, Some (StreamError e)), c2)
                | None \<Rightarrow>
                    (case Flush Z w1 of (w2, flushed) \<Rightarrow>
                     (Returns (Some (buf @ written @ flushed), None),
                      c2\<lparr>c_w := Some w2, c_buf := Some (buf @ written @ flushed)\<rparr>)))))"

subsection \<open>An uncompressed stream, to run the model on concrete inputs\<close>

text \<open>
  An instance of the reader interface in which the stream is its own content: creating
  the reader reads nothing, and a \<open>Read\<close> delivers the next bytes of the source, as
  many as the buffer takes and the source holds, or the error 0 when the source is
  exhausted.
\<close>

definition plain_reader :: "unit zlib_reader" where
  "plain_reader =
     \<lparr>NewReaderDict = (\<lambda>src dict. (Inr (), src)),
      Read = (\<lambda>r src n. if src = [] then (([], Some 0), r, [])
                         else ((take n src, None), r, drop n src))\<rparr>"

section \<open>Reading a trace\<close>



section \<open>The header block, as the specification describes it\<close>

text \<open>
  These definitions follow the words of the specification, not the code. A length
  field is big-endian, of 2 bytes in version 2 and of 4 bytes otherwise.
\<close>

definition be_nat :: "byte list \<Rightarrow> nat" where
  "be_nat bs = foldl (\<lambda>a b. 256 * a + unat b) 0 bs"




text \<open>
  Splitting on a separator, read backwards: the pieces joined by the separator.
\<close>

fun spec_join :: "byte \<Rightarrow> byte list list \<Rightarrow> byte list" where
  "spec_join sep [] = []"
| "spec_join sep [piece] = piece"
| "spec_join sep (piece # pieces) = piece @ sep # spec_join sep pieces"






section \<open>The budget of a call, as the specification describes it\<close>

text \<open>
  These definitions follow the words of the specification, not the code; they read
  the trace of a call against its result. The buffer \<open>p\<close> after a \<open>Read\<close> delivered
  \<open>bs\<close> into it:
\<close>

definition refill :: "byte list \<Rightarrow> byte list \<Rightarrow> byte list" where
  "refill p bs = bs @ drop (length bs) p"

text \<open>How a call ended.\<close>

definition succeeded :: "result \<Rightarrow> bool" where
  "succeeded res = (case res of Returns (Some h, None) \<Rightarrow> True | _ \<Rightarrow> False)"

definition returned_stream_error :: "result \<Rightarrow> bool" where
  "returned_stream_error res =
     (case res of Returns (None, Some (StreamError c)) \<Rightarrow> True | _ \<Rightarrow> False)"

definition panicked_stream_error :: "result \<Rightarrow> bool" where
  "panicked_stream_error res =
     (case res of Panics (PanicError (StreamError c)) \<Rightarrow> True | _ \<Rightarrow> False)"

definition opening_failed :: "result \<Rightarrow> bool" where
  "opening_failed res =
     (case res of
        Returns (None, Some versionError) \<Rightarrow> True
      | Returns (None, Some (StreamError c)) \<Rightarrow> True
      | _ \<Rightarrow> False)"

text \<open>
  What the events of one name/value pair say, for the length buffer \<open>c\<close> and the
  remaining budget \<open>b\<close> at its start. The length of the name is the big-endian value of
  the length buffer after the Read into it. Above the budget it ends the trace, with no
  allocation; otherwise that many bytes are allocated and read, and the budget goes
  down by it. The same holds for the length of the value, against what is left of the
  budget. A trace that stops after a Read is that of a Read that failed.
\<close>

datatype verdict =
    Malformed
  | ReturnedReadError
  | PanickedReadError
  | NameOverflow
  | ValueOverflow
  | Next "byte list" int "event list"

definition pair_events :: "byte list \<Rightarrow> int \<Rightarrow> event list \<Rightarrow> verdict" where
  "pair_events c b es =
     (case es of
        ReadCall n1 g1 # es1 \<Rightarrow>
          if n1 = length c then
            (case es1 of
               [] \<Rightarrow> ReturnedReadError
             | DeclaredName m # es2 \<Rightarrow>
                 if m = int (be_nat (refill c g1)) then
                   if m > b then (if es2 = [] then NameOverflow else Malformed)
                   else
                     (case es2 of
                        Make m' # ReadCall n2 g2 # es3 \<Rightarrow>
                          if m' = m \<and> n2 = nat m then
                            (case es3 of
                               [] \<Rightarrow> PanickedReadError
                             | ReadCall n3 g3 # es4 \<Rightarrow>
                                 if n3 = length c then
                                   (case es4 of
                                      [] \<Rightarrow> PanickedReadError
                                    | DeclaredValue v # es5 \<Rightarrow>
                                        if v = int (be_nat (refill (refill c g1) g3)) then
                                          if v > b - m
                                          then (if es5 = [] then ValueOverflow else Malformed)
                                          else
                                            (case es5 of
                                               Make v' # ReadCall n4 g4 # es6 \<Rightarrow>
                                                 if v' = v \<and> n4 = nat v
                                                 then Next (refill (refill c g1) g3) (b - m - v) es6
                                                 else Malformed
                                             | _ \<Rightarrow> Malformed)
                                        else Malformed
                                    | _ \<Rightarrow> Malformed)
                                 else Malformed
                             | _ \<Rightarrow> Malformed)
                          else Malformed
                      | _ \<Rightarrow> Malformed)
                 else Malformed
             | _ \<Rightarrow> Malformed)
          else Malformed
      | _ \<Rightarrow> Malformed)"

text \<open>
  \<open>call_pairs k c b es res\<close>: \<open>es\<close> is the trace of a call that has \<open>k\<close> pairs to
  read, and \<open>res\<close> its result. The call succeeds only after the last pair; it returns
  an overflow error exactly when a declared length is above the remaining budget.
\<close>

fun call_pairs :: "nat \<Rightarrow> byte list \<Rightarrow> int \<Rightarrow> event list \<Rightarrow> result \<Rightarrow> bool" where
  "call_pairs 0 c b es res = (es = [] \<and> succeeded res)"
| "call_pairs (Suc k) c b es res =
     (case pair_events c b es of
        Malformed \<Rightarrow> False
      | ReturnedReadError \<Rightarrow> returned_stream_error res
      | PanickedReadError \<Rightarrow> panicked_stream_error res
      | NameOverflow \<Rightarrow> res = Returns (None, Some HeaderNameLength)
      | ValueOverflow \<Rightarrow> res = Returns (None, Some HeaderValuesLength)
      | Next c' b' es' \<Rightarrow>
          (es' = [] \<and> returned_stream_error res) \<or> call_pairs k c' b' es' res)"

text \<open>
  The whole call, for length fields of \<open>w\<close> bytes: the Read of the pair count into a
  fresh buffer, then the pairs, with a budget of MAX_FRAME_SIZE - 12.
\<close>

definition call_trace :: "nat \<Rightarrow> event list \<Rightarrow> result \<Rightarrow> bool" where
  "call_trace w es res =
     (case es of
        ReadCall n g # es1 \<Rightarrow>
          n = w \<and>
          ((es1 = [] \<and> panicked_stream_error res)
           \<or> call_pairs (be_nat (refill (replicate w 0) g)) (refill (replicate w 0) g)
                (MAX_FRAME_SIZE - 12) es1 res)
      | _ \<Rightarrow> False)"

text \<open>
  A call that made no Read has failed to open the stream. Otherwise it is a call of
  version 2, with fields of 2 bytes, or of version 3, with fields of 4 bytes.
\<close>

definition budget_kept :: "16 word \<Rightarrow> event list \<Rightarrow> result \<Rightarrow> bool" where
  "budget_kept version es res =
     (if es = [] then opening_failed res
      else if version = 2 then call_trace 2 es res
      else if version = 3 then call_trace 4 es res
      else False)"

section \<open>Properties of the NOOP frame\<close>

text \<open>
  C10. For every NoopFrame and every byte sink, WriteTo returns (0, nil) and leaves the
  sink as it was: serializing a NOOP frame emits zero bytes.
\<close>

theorem WriteTo_emits_nothing:
  "WriteTo frame writer = ((0, None), writer)"
  by (simp add: WriteTo_def)

lemma uint_BytesToUint24:
  "uint (BytesToUint24 [l0, l1, l2]) = uint l0 * 65536 + uint l1 * 256 + uint l2"
proof -
  have a: "uint l0 < 256" "uint l1 < 256" "uint l2 < 256"
    using uint_bounded [of l0] uint_bounded [of l1] uint_bounded [of l2] by simp_all
  have b: "0 \<le> uint l0" "0 \<le> uint l1" "0 \<le> uint l2" by simp_all
  have c: "uint (ucast l0 :: 32 word) = uint l0" "uint (ucast l1 :: 32 word) = uint l1"
     "uint (ucast l2 :: 32 word) = uint l2"
    by (simp_all add: uint_up_ucast is_up)
  have d: "uint (push_bit 16 (ucast l0 :: 32 word)) = uint l0 * 65536"
    using a b by (simp add: push_bit_eq_mult uint_word_ariths c)
  have e: "uint (push_bit 8 (ucast l1 :: 32 word)) = uint l1 * 256"
    using a b by (simp add: push_bit_eq_mult uint_word_ariths c)
  show ?thesis
    unfolding BytesToUint24_def
    using a b by (simp add: uint_word_ariths c d e)
qed

lemma noop_header_accepted:
  "controlFrameCommonProcessing [0x80, 2, 0, 5, 0] NOOP 0 = None"
  by (simp add: controlFrameCommonProcessing_def NOOP_def)

text \<open>
  C9. Parsing the bytes 80 02 00 05 00 00 00 00 with ReadFrom returns (8, nil): no
  error, eight bytes consumed (whatever follows them stays in the source), and the
  frame is a NOOP frame.
\<close>

theorem ReadFrom_S1:
  "ReadFrom NoopFrame ([0x80, 0x02, 0x00, 0x05, 0x00, 0x00, 0x00, 0x00] @ rest) = ((8, None), rest)"
  by (simp add: ReadFrom_def ReadExactly_def noop_header_accepted uint_BytesToUint24)

text \<open>
  C8. A NOOP frame is eight bytes whose first five pass the common control-frame
  check for type NOOP with no flag allowed; the last three are the declared length,
  big-endian. ReadFrom consumes the eight bytes and returns 8 with
  IncorrectDataLength(length, 0) when the declared length is not zero, and 8 with no
  error when it is zero.
\<close>

theorem ReadFrom_length_check:
  assumes "controlFrameCommonProcessing [h0, h1, h2, h3, h4] NOOP 0 = None"
  shows "ReadFrom frame (h0 # h1 # h2 # h3 # h4 # l0 # l1 # l2 # rest) =
           (let n = uint l0 * 65536 + uint l1 * 256 + uint l2
            in ((8, if n \<noteq> 0 then Some (IncorrectDataLength n 0) else None), rest))"
  using assms by (simp add: ReadFrom_def ReadExactly_def uint_BytesToUint24 Let_def)

theorem ReadFrom_length_check_witness:
  "controlFrameCommonProcessing [0x80, 2, 0, 5, 0] NOOP 0 = None
   \<and> ReadFrom NoopFrame [0x80, 2, 0, 5, 0, 0, 1, 4, 9] = ((8, Some (IncorrectDataLength 260 0)), [9])
   \<and> ReadFrom NoopFrame [0x80, 2, 0, 5, 0, 0, 0, 0, 9] = ((8, None), [9])"
  using ReadFrom_length_check [OF noop_header_accepted, of NoopFrame 0 1 4 "[9]"]
        ReadFrom_length_check [OF noop_header_accepted, of NoopFrame 0 0 0 "[9]"]
  by (simp add: noop_header_accepted)

text \<open>
  C2, as stated, fails: WriteTo emits no byte, so the bytes produced for a NOOP frame
  are the empty string. ReadFrom on them fails with the short-read error of
  ReadExactly, and they are not the eight bytes 80 02 00 05 00 00 00 00.
\<close>

theorem noop_roundtrip_counterexample:
  "fst (ReadFrom NoopFrame (snd (WriteTo NoopFrame []))) = (0, Some ShortRead)
   \<and> snd (WriteTo NoopFrame []) \<noteq> [0x80, 0x02, 0x00, 0x05, 0x00, 0x00, 0x00, 0x00]"
  by (simp add: WriteTo_def ReadFrom_def ReadExactly_def)

text \<open>
  C2, amended. For every NOOP frame, WriteTo into an empty sink leaves it empty, and
  ReadFrom on the bytes so produced returns 0 and the error of ReadExactly. The eight
  bytes 80 02 00 05 00 00 00 00 parse as a NOOP frame, whose serialization is again the
  empty byte string.
\<close>

theorem noop_serialize_then_parse:
  "snd (WriteTo frame []) = []
   \<and> ReadFrom frame' (snd (WriteTo frame [])) = ((0, Some ShortRead), [])
   \<and> fst (ReadFrom frame [0x80, 0x02, 0x00, 0x05, 0x00, 0x00, 0x00, 0x00]) = (8, None)"
  by (simp add: WriteTo_def ReadFrom_def ReadExactly_def noop_header_accepted uint_BytesToUint24)

section \<open>Properties of the compressor and the decompressor\<close>

subsection \<open>Unsupported versions\<close>

lemma open_writer_unsupported:
  assumes "c_version c \<noteq> 2" "c_version c \<noteq> 3"
  shows "open_writer Z c =
     (case c_buf c of None \<Rightarrow> (Some versionError, c\<lparr>c_buf := Some []\<rparr>)
      | Some old \<Rightarrow> (None, c\<lparr>c_buf := Some []\<rparr>))"
  using assms by (simp add: open_writer_def Let_def split: option.splits)

lemma Compress_unsupported_first_call:
  assumes "version \<noteq> 2" "version \<noteq> 3"
  shows "Compress Z (NewCompressor version) data =
           (Returns (None, Some versionError), \<lparr>c_buf = Some [], c_w = None, c_version = version\<rparr>)"
  using assms by (simp add: Compress_def open_writer_unsupported NewCompressor_def)

lemma Compress_unsupported_later_call:
  assumes "version \<noteq> 2" "version \<noteq> 3"
  shows "Compress Z \<lparr>c_buf = Some [], c_w = None, c_version = version\<rparr> data =
           (Panics NilDereference, \<lparr>c_buf = Some [], c_w = None, c_version = version\<rparr>)"
  using assms by (simp add: Compress_def open_writer_unsupported)

text \<open>
  A decompressor of an unsupported version never gets a reader, and each of its calls
  returns the version error.
\<close>

lemma Decompress_unsupported:
  assumes "d_version d \<noteq> 2" "d_version d \<noteq> 3" "d_out d = None"
  shows "Decompress Z d data = (Returns (None, Some versionError), d\<lparr>d_in := Some data\<rparr>, [])"
  using assms by (simp add: Decompress_def open_stream_def split: option.splits)

text \<open>
  C6 at version 4. The first Compress returns the version error, and has already
  created the buffer; the second call finds the buffer, skips the version switch and
  calls Write on the nil writer: it panics instead of returning the version error.
\<close>

theorem Compress_unsupported_version_second_call:
  "fst (Compress Z (NewCompressor 4) data1) = Returns (None, Some versionError)
   \<and> fst (Compress Z (snd (Compress Z (NewCompressor 4) data1)) data2) = Panics NilDereference"
  by (simp add: Compress_unsupported_first_call Compress_unsupported_later_call)

subsection \<open>Read errors\<close>

text \<open>
  Whatever the reader is: when the Read of the pair count returns an error, the call
  panics with it.
\<close>

lemma read_block_count_error:
  assumes "snd (fst (Read Z r src w)) = Some e"
  shows "fst (read_block Z w dechunk r src) = Panics (PanicError (StreamError e))"
proof -
  obtain bs err r' src' where rd: "Read Z r src w = ((bs, err), r', src')"
    by (cases "Read Z r src w") auto
  with assms have "err = Some e" by simp
  with rd show ?thesis
    by (simp add: read_block_def do_Read_def Let_def)
qed

lemma Decompress_count_error:
  assumes "d_version d = 2" "d_out d = Some r" "snd (fst (Read Z r data 2)) = Some e"
  shows "fst (Decompress Z d data) = Panics (PanicError (StreamError e))"
proof -
  have os: "open_stream Z d data = (Inr r, data)"
    using assms(2) by (simp add: open_stream_def split: option.splits)
  obtain res s where rb: "read_block Z 2 (\<lambda>b. uint (bytesToUint16 b)) r data = (res, s)"
    by (cases "read_block Z 2 (\<lambda>b. uint (bytesToUint16 b)) r data") auto
  with read_block_count_error [OF assms(3), of "\<lambda>b. uint (bytesToUint16 b)"]
  have "res = Panics (PanicError (StreamError e))" by simp
  with os rb assms(1) show ?thesis by (simp add: Decompress_def)
qed

text \<open>
  C3 on three streams that end early: in the pair count, in a name, and in the length
  of a value. The read error is not returned: the call panics with it (lines 82, 106
  and 112).
\<close>

theorem Decompress_panics_on_read_error:
  "fst (Decompress plain_reader (NewDecompressor 2) []) = Panics (PanicError (StreamError 0))
   \<and> fst (Decompress plain_reader (NewDecompressor 2) [0, 1, 0, 1]) = Panics (PanicError (StreamError 0))
   \<and> fst (Decompress plain_reader (NewDecompressor 2) [0, 1, 0, 1, 0x61]) = Panics (PanicError (StreamError 0))"
  by (simp add: Decompress_def open_stream_def NewDecompressor_def read_block_def do_Read_def received_def
      plain_reader_def read_pair_def bytesToUint16_def MAX_FRAME_SIZE_def Let_def)

subsection \<open>The source buffer\<close>

text \<open>
  C5, as stated, fails. A first call is given four bytes of which the reader consumes
  two; the two others are left in the buffer. The first Read of the second call
  delivers the bytes of the second call, not the two left over. Likewise, with no
  reader at all (version 5), the buffer after a second call holds the second input
  only.
\<close>

theorem Decompress_append_counterexample:
  "d_in (fst (snd (Decompress plain_reader (NewDecompressor 2) [0, 0, 0, 1]))) = Some [0, 1]
   \<and> snd (snd (Decompress plain_reader
          (fst (snd (Decompress plain_reader (NewDecompressor 2) [0, 0, 0, 1]))) [0, 0]))
       = [ReadCall 2 [0, 0]]
   \<and> d_in (fst (snd (Decompress plain_reader (NewDecompressor 5) [1, 2, 3]))) = Some [1, 2, 3]
   \<and> d_in (fst (snd (Decompress plain_reader
          (fst (snd (Decompress plain_reader (NewDecompressor 5) [1, 2, 3]))) [4])))
       = Some [4]"
  by (simp add: Decompress_def open_stream_def NewDecompressor_def read_block_def do_Read_def received_def
      plain_reader_def bytesToUint16_def MAX_FRAME_SIZE_def Let_def)

text \<open>
  C5, amended. Each call replaces the content of the source buffer by its input.
  Whatever the buffer held before, a call on a decompressor that has its reader runs
  that reader on a buffer holding the input bytes and nothing else; a call on a
  decompressor without reader hands NewReaderDict a buffer holding the input bytes and
  nothing else, and goes on, on what NewReaderDict left of them, as a decompressor
  that has the reader; and with no reader and an unsupported version the buffer is
  left holding the input bytes.
\<close>

theorem Decompress_replaces_input:
  "Decompress Z (d\<lparr>d_in := old, d_out := Some r\<rparr>) data =
     (if d_version d = 2 then
        (case read_block Z 2 (\<lambda>b. uint (bytesToUint16 b)) r data of
           (res, s) \<Rightarrow> (res, d\<lparr>d_in := Some (l_in s), d_out := Some (l_out s)\<rparr>, trace s))
      else if d_version d = 3 then
        (case read_block Z 4 (\<lambda>b. uint (bytesToUint32 b)) r data of
           (res, s) \<Rightarrow> (res, d\<lparr>d_in := Some (l_in s), d_out := Some (l_out s)\<rparr>, trace s))
      else (Returns (None, Some versionError), d\<lparr>d_in := Some data, d_out := Some r\<rparr>, []))
   \<and> Decompress Z (d\<lparr>d_in := old, d_out := None\<rparr>) data =
     (if d_version d = 2 then
        (case NewReaderDict Z data HeaderDictionaryV2 of
           (Inl e, src) \<Rightarrow>
             (Returns (None, Some (StreamError e)), d\<lparr>d_in := Some src, d_out := None\<rparr>, [])
         | (Inr r', src) \<Rightarrow> Decompress Z (d\<lparr>d_in := None, d_out := Some r'\<rparr>) src)
      else if d_version d = 3 then
        (case NewReaderDict Z data HeaderDictionaryV3 of
           (Inl e, src) \<Rightarrow>
             (Returns (None, Some (StreamError e)), d\<lparr>d_in := Some src, d_out := None\<rparr>, [])
         | (Inr r', src) \<Rightarrow> Decompress Z (d\<lparr>d_in := None, d_out := Some r'\<rparr>) src)
      else (Returns (None, Some versionError), d\<lparr>d_in := Some data, d_out := None\<rparr>, []))"
  by (simp add: Decompress_def open_stream_def split: option.splits prod.splits sum.splits)

subsection \<open>Reads and length fields\<close>

lemma do_Read_trace:
  "trace (snd (snd (do_Read Z p s))) = trace s @ [ReadCall (length p) (received Z p s)]"
  by (simp add: do_Read_def split: prod.splits)

lemma do_Read_keeps:
  "bounds (snd (snd (do_Read Z p s))) = bounds s"
  "chunk (snd (snd (do_Read Z p s))) = chunk s"
  "headers (snd (snd (do_Read Z p s))) = headers s"
  by (simp_all add: do_Read_def split: prod.splits)

lemma length_received: "length (received Z p s) \<le> length p"
  by (simp add: received_def)

lemma do_Read_refill: "fst (do_Read Z p s) = refill p (received Z p s)"
  by (simp add: do_Read_def refill_def split: prod.splits)

lemma length_refill_received: "length (refill p (received Z p s)) = length p"
  using length_received [of Z p s] by (simp add: refill_def)


lemma uint_bytesToUint16:
  assumes "length c = 2"
  shows "uint (bytesToUint16 c) = int (be_nat c)"
proof -
  from assms obtain a b where c: "c = [a, b]"
    by (cases c; cases "tl c") auto
  have bd: "uint a < 256" "uint b < 256" "0 \<le> uint a" "0 \<le> uint b"
    using uint_bounded [of a] uint_bounded [of b] by simp_all
  have uc: "uint (ucast a :: 16 word) = uint a" "uint (ucast b :: 16 word) = uint b"
    by (simp_all add: uint_up_ucast is_up)
  have "uint (push_bit 8 (ucast a :: 16 word)) = uint a * 256"
    using bd by (simp add: push_bit_eq_mult uint_word_ariths uc)
  then have "uint (bytesToUint16 [a, b]) = uint a * 256 + uint b"
    using bd by (simp add: bytesToUint16_def uint_word_ariths uc)
  then show ?thesis by (simp add: c be_nat_def)
qed

lemma uint_bytesToUint32:
  assumes "length c = 4"
  shows "uint (bytesToUint32 c) = int (be_nat c)"
proof -
  from assms obtain a b e f where c: "c = [a, b, e, f]"
    by (cases c; cases "tl c"; cases "tl (tl c)"; cases "tl (tl (tl c))") auto
  have bd: "uint a < 256" "uint b < 256" "uint e < 256" "uint f < 256"
    "0 \<le> uint a" "0 \<le> uint b" "0 \<le> uint e" "0 \<le> uint f"
    using uint_bounded [of a] uint_bounded [of b] uint_bounded [of e] uint_bounded [of f]
    by simp_all
  have uc: "uint (ucast a :: 32 word) = uint a" "uint (ucast b :: 32 word) = uint b"
    "uint (ucast e :: 32 word) = uint e" "uint (ucast f :: 32 word) = uint f"
    by (simp_all add: uint_up_ucast is_up)
  have p: "uint (push_bit 24 (ucast a :: 32 word)) = uint a * 16777216"
    "uint (push_bit 16 (ucast b :: 32 word)) = uint b * 65536"
    "uint (push_bit 8 (ucast e :: 32 word)) = uint e * 256"
    using bd by (simp_all add: push_bit_eq_mult uint_word_ariths uc)
  have "uint (bytesToUint32 [a, b, e, f]) = uint a * 16777216 + uint b * 65536 + uint e * 256 + uint f"
    using bd by (simp add: bytesToUint32_def uint_word_ariths uc p)
  then show ?thesis by (simp add: c be_nat_def)
qed

lemma read_pairs_unfold:
  "0 < k \<Longrightarrow> read_pairs Z f k s =
     (case read_pair Z f s of Inl res \<Rightarrow> res | Inr s' \<Rightarrow> read_pairs Z f (k - 1) s')"
  by (cases k) (simp_all split: sum.splits)


subsection \<open>The budget of a call\<close>

lemma read_pair_exit:
  assumes "read_pair Z dechunk s = Inl (res, s')"
      and deq: "\<And>c. length c = length (chunk s) \<Longrightarrow> dechunk c = int (be_nat c)"
  shows "\<exists>t. trace s' = trace s @ t \<and> call_pairs (Suc k) (chunk s) (bounds s) t res"
  using assms(1) unfolding read_pair_def Let_def case_prod_beta
  by (auto split: option.splits if_splits
      simp: do_Read_trace do_Read_keeps do_Read_refill length_refill_received deq
        pair_events_def returned_stream_error_def panicked_stream_error_def)

lemma read_pair_continue:
  assumes "read_pair Z dechunk s = Inr s'"
      and deq: "\<And>c. length c = length (chunk s) \<Longrightarrow> dechunk c = int (be_nat c)"
  shows "\<exists>t. trace s' = trace s @ t \<and> length (chunk s') = length (chunk s)
           \<and> (\<forall>rest. pair_events (chunk s) (bounds s) (t @ rest) = Next (chunk s') (bounds s') rest)"
  using assms(1) unfolding read_pair_def Let_def case_prod_beta
  by (auto split: option.splits if_splits
      simp: do_Read_trace do_Read_keeps do_Read_refill length_refill_received deq
        pair_events_def)

lemma read_pairs_call:
  assumes "read_pairs Z dechunk k s = (res, s')"
      and deq: "\<And>c. length c = w \<Longrightarrow> dechunk c = int (be_nat c)"
      and w: "length (chunk s) = w"
  shows "\<exists>t. trace s' = trace s @ t \<and> call_pairs k (chunk s) (bounds s) t res"
  using assms(1) w
proof (induction k arbitrary: s)
  case 0
  then show ?case by (auto simp: succeeded_def)
next
  case (Suc k)
  have deq': "\<And>c. length c = length (chunk s) \<Longrightarrow> dechunk c = int (be_nat c)"
    using deq Suc.prems(2) by simp
  show ?case
  proof (cases "read_pair Z dechunk s")
    case (Inl a)
    with Suc.prems(1) have "read_pair Z dechunk s = Inl (res, s')" by simp
    from read_pair_exit [OF this deq'] show ?thesis by simp
  next
    case (Inr s1)
    from read_pair_continue [OF Inr deq'] obtain t1 where
      t1: "trace s1 = trace s @ t1" "length (chunk s1) = length (chunk s)"
          "\<And>rest. pair_events (chunk s) (bounds s) (t1 @ rest) = Next (chunk s1) (bounds s1) rest"
      by blast
    from Suc.prems(1) Inr have "read_pairs Z dechunk k s1 = (res, s')" by simp
    from Suc.IH [OF this] t1(2) Suc.prems(2) obtain t2 where
      t2: "trace s' = trace s1 @ t2" "call_pairs k (chunk s1) (bounds s1) t2 res"
      by auto
    have "trace s' = trace s @ (t1 @ t2)" using t1(1) t2(1) by simp
    moreover have "call_pairs (Suc k) (chunk s) (bounds s) (t1 @ t2) res"
      using t1(3) [of t2] t2(2) by simp
    ultimately show ?thesis by blast
  qed
qed

lemma read_block_call:
  assumes run: "read_block Z w dechunk r src = (res, s')"
      and deq: "\<And>c. length c = w \<Longrightarrow> dechunk c = int (be_nat c)"
  shows "call_trace w (trace s') res"
proof -
  define s0 :: "'a locals" where "s0 = \<lparr>l_out = r, l_in = src, chunk = replicate w 0,
     headers = Map.empty, bounds = MAX_FRAME_SIZE - 12, trace = []\<rparr>"
  define g where "g = received Z (replicate w 0) s0"
  define s1 where "s1 = (snd (snd (do_Read Z (chunk s0) s0)))\<lparr>chunk := fst (do_Read Z (chunk s0) s0)\<rparr>"
  have c1: "chunk s1 = refill (replicate w 0) g"
    by (simp add: s1_def s0_def g_def do_Read_refill)
  have l1: "length (chunk s1) = w"
    by (simp add: c1 g_def length_refill_received)
  have tr: "trace s1 = [ReadCall w g]" and b: "bounds s1 = MAX_FRAME_SIZE - 12"
    by (simp_all add: s1_def s0_def g_def do_Read_trace do_Read_keeps)
  show ?thesis
  proof (cases "fst (snd (do_Read Z (chunk s0) s0))")
    case (Some e)
    with run have "res = Panics (PanicError (StreamError e))" "s' = s1"
      by (simp_all add: read_block_def Let_def case_prod_beta s0_def [symmetric] s1_def)
    with tr show ?thesis by (simp add: call_trace_def panicked_stream_error_def)
  next
    case None
    with run have "read_pairs Z dechunk (nat (dechunk (chunk s1))) s1 = (res, s')"
      by (simp add: read_block_def Let_def case_prod_beta s0_def [symmetric] s1_def)
    from read_pairs_call [OF this deq l1] obtain t where
      t: "trace s' = trace s1 @ t"
         "call_pairs (nat (dechunk (chunk s1))) (chunk s1) (bounds s1) t res" by blast
    have "nat (dechunk (chunk s1)) = be_nat (chunk s1)" using deq [OF l1] by simp
    with t tr b c1 show ?thesis by (simp add: call_trace_def)
  qed
qed

lemma open_stream_error:
  assumes "open_stream Z d data = (Inl e, src)"
  shows "e = versionError \<or> (\<exists>c. e = StreamError c)"
  using assms by (auto simp: open_stream_def split: option.splits if_splits prod.splits sum.splits)

lemma call_trace_not_Nil: "call_trace w es res \<Longrightarrow> es \<noteq> []"
  by (auto simp: call_trace_def)

text \<open>
  C4. In every call of Decompress, whatever the stream delivers, the trace and the
  result are those of a call that keeps a running budget, MAX_FRAME_SIZE - 12 at the
  start. Each name length and each value length is the big-endian value of the length
  buffer after the Read into it. A length within the remaining budget is allocated,
  read, and taken off the budget. A length above the remaining budget is not
  allocated: the call returns the overflow error of that field at once. The call
  returns an overflow error in no other case, and succeeds only after the last pair.
\<close>

theorem Decompress_budget:
  "budget_kept (d_version d) (snd (snd (Decompress Z d data))) (fst (Decompress Z d data))"
proof -
  obtain opened src where os: "open_stream Z d data = (opened, src)"
    by (cases "open_stream Z d data") auto
  show ?thesis
  proof (cases opened)
    case (Inl e)
    with os open_stream_error [of Z d data e src] show ?thesis
      by (auto simp: Decompress_def budget_kept_def opening_failed_def)
  next
    case (Inr r)
    consider (v2) "d_version d = 2" | (v3) "d_version d = 3" "d_version d \<noteq> 2"
      | (other) "d_version d \<noteq> 2" "d_version d \<noteq> 3" by blast
    then show ?thesis
    proof cases
      case v2
      obtain res s where rb: "read_block Z 2 (\<lambda>b. uint (bytesToUint16 b)) r src = (res, s)"
        by (cases "read_block Z 2 (\<lambda>b. uint (bytesToUint16 b)) r src") auto
      from read_block_call [OF rb uint_bytesToUint16] have ct: "call_trace 2 (trace s) res" .
      with os Inr v2 rb call_trace_not_Nil [OF ct] show ?thesis
        by (simp add: Decompress_def budget_kept_def)
    next
      case v3
      obtain res s where rb: "read_block Z 4 (\<lambda>b. uint (bytesToUint32 b)) r src = (res, s)"
        by (cases "read_block Z 4 (\<lambda>b. uint (bytesToUint32 b)) r src") auto
      from read_block_call [OF rb uint_bytesToUint32] have ct: "call_trace 4 (trace s) res" .
      with os Inr v3 rb call_trace_not_Nil [OF ct] show ?thesis
        by (simp add: Decompress_def budget_kept_def)
    next
      case other
      with os Inr show ?thesis
        by (simp add: Decompress_def budget_kept_def opening_failed_def)
    qed
  qed
qed

lemma value_overflow_run:
  "Decompress plain_reader (NewDecompressor 3) [0, 0, 0, 1, 0, 0, 0, 1, 0x61, 0, 255, 255, 243]
     = (Returns (None, Some HeaderValuesLength),
        \<lparr>d_in = Some [], d_out = Some (), d_version = 3\<rparr>,
        [ReadCall 4 [0, 0, 0, 1],
         ReadCall 4 [0, 0, 0, 1], DeclaredName 1, Make 1, ReadCall 1 [0x61],
         ReadCall 4 [0, 255, 255, 243], DeclaredValue 16777203])"
  by (simp add: Decompress_def open_stream_def NewDecompressor_def read_block_def do_Read_def
      received_def plain_reader_def read_pair_def bytesToUint32_def MAX_FRAME_SIZE_def Let_def
      read_pairs_unfold)

theorem Decompress_budget_witness:
  "budget_kept 3
     (snd (snd (Decompress plain_reader (NewDecompressor 3)
        [0, 0, 0, 1, 0, 0, 0, 1, 0x61, 0, 255, 255, 243])))
     (fst (Decompress plain_reader (NewDecompressor 3)
        [0, 0, 0, 1, 0, 0, 0, 1, 0x61, 0, 255, 255, 243]))
   \<and> fst (Decompress plain_reader (NewDecompressor 3)
        [0, 0, 0, 1, 0, 0, 0, 1, 0x61, 0, 255, 255, 243])
       = Returns (None, Some HeaderValuesLength)
   \<and> snd (snd (Decompress plain_reader (NewDecompressor 3)
        [0, 0, 0, 1, 0, 0, 0, 1, 0x61, 0, 255, 255, 243]))
       = [ReadCall 4 [0, 0, 0, 1],
          ReadCall 4 [0, 0, 0, 1], DeclaredName 1, Make 1, ReadCall 1 [0x61],
          ReadCall 4 [0, 255, 255, 243], DeclaredValue 16777203]"
proof -
  have v: "d_version (NewDecompressor 3 :: unit Decompressor) = 3"
    by (simp add: NewDecompressor_def)
  have a: "fst (Decompress plain_reader (NewDecompressor 3)
        [0, 0, 0, 1, 0, 0, 0, 1, 0x61, 0, 255, 255, 243])
       = Returns (None, Some HeaderValuesLength)"
    by (simp add: value_overflow_run)
  have b: "snd (snd (Decompress plain_reader (NewDecompressor 3)
        [0, 0, 0, 1, 0, 0, 0, 1, 0x61, 0, 255, 255, 243]))
       = [ReadCall 4 [0, 0, 0, 1],
          ReadCall 4 [0, 0, 0, 1], DeclaredName 1, Make 1, ReadCall 1 [0x61],
          ReadCall 4 [0, 255, 255, 243], DeclaredValue 16777203]"
    by (simp add: value_overflow_run)
  from Decompress_budget [of "NewDecompressor 3" plain_reader
          "[0, 0, 0, 1, 0, 0, 0, 1, 0x61, 0, 255, 255, 243]"] a b
  show ?thesis by (simp only: v simp_thms)
qed

subsection \<open>The header block\<close>

lemma bytes_Split_not_Nil: "bytes_Split v sep \<noteq> []"
  by (induction v) (auto split: list.splits)





lemma bytes_Split_no_separator:
  "piece \<in> set (bytes_Split v sep) \<Longrightarrow> sep \<notin> set piece"
  by (induction v arbitrary: piece) (auto split: if_splits list.splits)

lemma bytes_Split_join: "spec_join sep (bytes_Split v sep) = v"
proof (induction v)
  case Nil
  show ?case by simp
next
  case (Cons b v)
  obtain piece pieces where sp: "bytes_Split v sep = piece # pieces"
    using bytes_Split_not_Nil [of v sep] by (cases "bytes_Split v sep") auto
  with Cons show ?case by (cases pieces) auto
qed




lemma do_Read_buffer:
  "fst (do_Read Z p s) = received Z p s @ drop (length (received Z p s)) p"
  by (simp add: do_Read_def split: prod.splits)

lemma length_do_Read_buffer: "length (fst (do_Read Z p s)) = length p"
  using length_received [of Z p s] by (simp add: do_Read_buffer)

lemma do_Read_buffer_full:
  "length (received Z p s) = length p \<Longrightarrow> fst (do_Read Z p s) = received Z p s"
  by (simp add: do_Read_buffer)














end
